theory Spec2Isabelle
  imports Main "HOL-Library.Word" "HOL-Library.Sublist"
begin

section \<open>Data model of \<^verbatim>\<open>cmd/servicecmd/servicestartcmd.go\<close>\<close>

text \<open>
  The file holds six entry points, one per node role. Each one reads the server
  configuration, exports the primary port into the process environment, builds the
  metadata client and the shared service object, builds the role's host and starts
  the host, a websocket server (four of the six roles) and the diagnostic HTTP loop.

  The collaborators live in other packages. A call to one of them is recorded as an
  event of a trace; what the call answers (an error, a handle, a string) is read
  from the \<open>world\<close> the process starts in.
\<close>

subsection \<open>Values\<close>

type_synonym error = string
  \<comment> \<open>a Go \<^verbatim>\<open>error\<close>, by its message\<close>

type_synonym goint = "64 word"
  \<comment> \<open>Go's \<^verbatim>\<open>int\<close> on a 64-bit platform; \<open>+\<close> wraps, \<open>sint\<close> reads the value\<close>

text \<open>
  The service names \<^verbatim>\<open>common.InputServiceName\<close>, ... are string constants of package
  \<^verbatim>\<open>common\<close>. Their text is not used by this file, only their identity, so they are
  kept symbolic.
\<close>

datatype service_name =
    InputServiceName
  | ControllerServiceName
  | FrontendServiceName
  | OutputServiceName
  | StoreServiceName
  | ReplicatorServiceName

text \<open>
  \<^verbatim>\<open>cfg.GetServiceConfig(name)\<close>: the getters used are \<^verbatim>\<open>GetPort()\<close>,
  \<^verbatim>\<open>GetWebsocketPort()\<close> and \<^verbatim>\<open>GetListenAddress().String()\<close>; the listen address is
  kept in its textual form.
\<close>

record ServiceConfig =
  GetPort :: goint
  GetWebsocketPort :: goint
  GetListenAddress_String :: string

record StorageConfig =
  GetHostUUID :: string
  GetStore :: string
  GetBaseDir :: string

record AppConfig =
  GetServiceConfig :: "service_name \<Rightarrow> ServiceConfig"
  GetMetadataConfig :: string
  GetStorageConfig :: StorageConfig
  GetKafkaConfig :: string

datatype meta = MetadataClient nat
  \<comment> \<open>the handle returned by \<^verbatim>\<open>metadata.NewCassandraMetadataService\<close>\<close>

text \<open>
  \<^verbatim>\<open>storehost.Store\<close> and its four constants. The field \<^verbatim>\<open>Store\<close> of
  \<^verbatim>\<open>storehost.Options\<close> is \<open>None\<close> while no constant has been assigned to it
  (the composite literal \<^verbatim>\<open>&storehost.Options{BaseDir: baseDir}\<close> leaves it at the zero
  value of its type).
\<close>

datatype Store = Rockstor | Chunky | ManyRocks | RockCFstor

record Options =
  Store :: "Store option"
  BaseDir :: string

text \<open>The two flags of the storage role, as \<^verbatim>\<open>flag.Parse()\<close> found them on the command
  line: \<open>None\<close> when the flag is not given.\<close>

record cmdline =
  store_flag :: "string option"
  dir_flag :: "string option"

subsection \<open>Library functions used on strings and integers\<close>

text \<open>
  \<^verbatim>\<open>strings.ToLower\<close>. A Go string is a sequence of bytes, as a HOL \<open>string\<close> is.
  On a string of ASCII bytes only, the result maps \<^verbatim>\<open>'A'..'Z'\<close> to \<^verbatim>\<open>'a'..'z'\<close> byte
  by byte. On any other string Go maps every rune through the Unicode tables; that
  mapping is the parameter \<open>unicode_lower\<close>.
\<close>

definition isASCII :: "char \<Rightarrow> bool" where
  "isASCII c = ((of_char c :: nat) < 128)"

definition lowerASCII :: "char \<Rightarrow> char" where
  "lowerASCII c =
     (if (65::nat) \<le> of_char c \<and> (of_char c :: nat) \<le> 90
      then char_of ((of_char c :: nat) + 32) else c)"

definition ToLower :: "(string \<Rightarrow> string) \<Rightarrow> string \<Rightarrow> string" where
  "ToLower unicode_lower s =
     (if list_all isASCII s then map lowerASCII s else unicode_lower s)"

text \<open>\<^verbatim>\<open>strings.Contains(s, substr)\<close>: \<open>substr\<close> occurs in \<open>s\<close> as a run of
  consecutive bytes; the search tries every start position from the left.\<close>

fun Contains :: "string \<Rightarrow> string \<Rightarrow> bool" where
  "Contains [] substr = (substr = [])"
| "Contains (c # cs) substr = (prefix substr (c # cs) \<or> Contains cs substr)"

text \<open>\<^verbatim>\<open>fmt.Sprintf("%d", n)\<close> on an \<^verbatim>\<open>int\<close>: the decimal digits of the value, most
  significant first, after a minus sign when the value is negative.\<close>

definition digit_char :: "nat \<Rightarrow> char" where
  "digit_char d = char_of (48 + d)"

fun decimal :: "nat \<Rightarrow> string" where
  "decimal n = (if n < 10 then [digit_char n] else decimal (n div 10) @ [digit_char (n mod 10)])"

declare decimal.simps [simp del]

definition Sprintf_d :: "goint \<Rightarrow> string" where
  "Sprintf_d n =
     (if sint n < 0 then CHR ''-'' # decimal (nat (- sint n)) else decimal (nat (sint n)))"

text \<open>\<^verbatim>\<open>os.Getenv\<close>: the value of the variable, empty when the variable is not set.\<close>

definition Getenv :: "(string \<rightharpoonup> string) \<Rightarrow> string \<Rightarrow> string" where
  "Getenv env k = (case env k of None \<Rightarrow> [] | Some v \<Rightarrow> v)"

text \<open>\<^verbatim>\<open>flag.StringVar(&v, name, dflt, usage)\<close> followed by \<^verbatim>\<open>flag.Parse()\<close>: the
  variable holds the default unless the flag is on the command line.\<close>

definition flag_StringVar :: "string \<Rightarrow> string option \<Rightarrow> string" where
  "flag_StringVar dflt given = (case given of None \<Rightarrow> dflt | Some v \<Rightarrow> v)"

subsection \<open>The storage role's options\<close>

text \<open>Lines 194 to 209: the switch on the lower-cased store name. The first case
  whose token is contained in the name assigns its constant; the default case assigns
  nothing.\<close>

definition store_switch :: "(string \<Rightarrow> string) \<Rightarrow> string \<Rightarrow> Options \<Rightarrow> Options" where
  "store_switch unicode_lower storeStr0 opts =
     (let storeStr = ToLower unicode_lower storeStr0 in
      if Contains storeStr ''rockstor'' then opts\<lparr>Store := Some Rockstor\<rparr>
      else if Contains storeStr ''chunky'' then opts\<lparr>Store := Some Chunky\<rparr>
      else if Contains storeStr ''manyrocks'' then opts\<lparr>Store := Some ManyRocks\<rparr>
      else if Contains storeStr ''rockcfstor'' then opts\<lparr>Store := Some RockCFstor\<rparr>
      else opts)"

text \<open>Lines 211 to 224: the switch that sets \<^verbatim>\<open>opts.BaseDir\<close>; \<open>env\<close> is the process
  environment at that point.\<close>

definition baseDir_switch ::
  "string \<Rightarrow> (string \<rightharpoonup> string) \<Rightarrow> AppConfig \<Rightarrow> Options \<Rightarrow> Options" where
  "baseDir_switch baseDir env cfg opts =
     (if baseDir \<noteq> [] then opts\<lparr>BaseDir := baseDir\<rparr>
      else if Getenv env ''CHERAMI_STORE'' \<noteq> [] then opts\<lparr>BaseDir := Getenv env ''CHERAMI_STORE''\<rparr>
      else if GetBaseDir (GetStorageConfig cfg) \<noteq> []
        then opts\<lparr>BaseDir := GetBaseDir (GetStorageConfig cfg)\<rparr>
      else opts)"

text \<open>Lines 186 to 224 together: the two flag variables, the options literal and the
  two switches.\<close>

definition store_options ::
  "(string \<Rightarrow> string) \<Rightarrow> AppConfig \<Rightarrow> (string \<rightharpoonup> string) \<Rightarrow> cmdline \<Rightarrow> Options" where
  "store_options unicode_lower cfg env args =
     (let storeStr = flag_StringVar (GetStore (GetStorageConfig cfg)) (store_flag args);
          baseDir = flag_StringVar [] (dir_flag args);
          opts = \<lparr>Store = None, BaseDir = baseDir\<rparr>;
          opts = store_switch unicode_lower storeStr opts
      in baseDir_switch baseDir env cfg opts)"

subsection \<open>The world a process starts in, and what it does there\<close>

text \<open>
  What the collaborators answer during one run of an entry point:
  the configuration returned by \<^verbatim>\<open>common.SetupServerConfig\<close>, the process environment
  at start, the result of \<^verbatim>\<open>os.Setenv\<close>, the result of
  \<^verbatim>\<open>metadata.NewCassandraMetadataService\<close>, the string returned by \<^verbatim>\<open>uuid.New()\<close>,
  and the result of \<^verbatim>\<open>flag.Parse()\<close> (the default flag set exits the process with a
  status when the command line does not parse).
\<close>

record world =
  SetupServerConfig_result :: AppConfig
  environ :: "string \<rightharpoonup> string"
  Setenv_result :: "error option"
  NewCassandraMetadataService_result :: "error + meta"
  uuid_New_result :: string
  flag_Parse_result :: "nat + cmdline"
  unicode_ToLower :: "string \<Rightarrow> string"


datatype host = InputHost | Controller | FrontendHost | OutputHost | StoreHost | Replicator

datatype tchan = HostChannels host | TChanMetadataExposableServer meta

datatype introspected = Host host | SCommon service_name | Controller_Service

text \<open>One event per call made by an entry point, in program order, with the
  arguments the claims are about.\<close>

datatype event =
    SetupServerConfig
  | Setenv string string
  | log_Panic error
  | NewCassandraMetadataService string
  | log_Fatal error string
  | NewHostHardwareInfoReader meta
  | NewMetricReporterWithHostname ServiceConfig
  | NewDconfigClient ServiceConfig service_name
  | uuid_New
  | NewUUIDResolver meta
  | NewBypassAuthManager
  | NewService service_name string ServiceConfig meta
  | NewInputHost service_name
  | NewDummyZoneFailoverManager
  | NewController
  | NewFrontendHost service_name
  | NewTChanMetadataExposableServer meta
  | NewOutputHost service_name string
  | flag_Parse
  | NewStoreHost service_name Options
  | GetDefaultLogger
  | NewReplicatorClientFactory
  | NewReplicator service_name
  | Start host "tchan list"
  | WSStart string goint host
  | ServiceLoop goint introspected

text \<open>How a run ends: every call was made (\<open>Completed\<close>), \<^verbatim>\<open>log.Panic\<close> raised a
  panic, or the process exited with a status (\<^verbatim>\<open>log.Fatal\<close> exits with status 1).\<close>

datatype outcome = Completed | Panicked error | Exited nat

type_synonym run = "event list \<times> outcome"

definition diagnosticPortOffset :: goint where
  "diagnosticPortOffset = 10000"

text \<open>Lines 57 to 83.\<close>

definition StartInputHostService :: "world \<Rightarrow> run" where
  "StartInputHostService w =
     (let serviceName = InputServiceName;
          cfg = SetupServerConfig_result w;
          sc = GetServiceConfig cfg serviceName;
          t1 = [SetupServerConfig, Setenv ''port'' (Sprintf_d (GetPort sc))]
      in case Setenv_result w of
           Some e \<Rightarrow> (t1 @ [log_Panic e], Panicked e)
         | None \<Rightarrow>
            (let t2 = t1 @ [NewCassandraMetadataService (GetMetadataConfig cfg)]
             in case NewCassandraMetadataService_result w of
                  Inl err \<Rightarrow>
                    (t2 @ [log_Fatal err ''inputhost: unable to instantiate metadata client''],
                     Exited 1)
                | Inr meta \<Rightarrow>
                    (t2 @ [NewHostHardwareInfoReader meta,
                           NewMetricReporterWithHostname sc,
                           NewDconfigClient sc serviceName,
                           uuid_New, NewUUIDResolver meta, NewBypassAuthManager,
                           NewService serviceName (uuid_New_result w) sc meta,
                           NewInputHost serviceName,
                           Start InputHost [HostChannels InputHost],
                           WSStart (GetListenAddress_String sc) (GetWebsocketPort sc) InputHost,
                           ServiceLoop (GetPort sc + diagnosticPortOffset) (Host InputHost)],
                     Completed)))"

text \<open>Lines 86 to 105.\<close>

definition StartControllerService :: "world \<Rightarrow> run" where
  "StartControllerService w =
     (let serviceName = ControllerServiceName;
          cfg = SetupServerConfig_result w;
          sc = GetServiceConfig cfg serviceName;
          t1 = [SetupServerConfig, Setenv ''port'' (Sprintf_d (GetPort sc))]
      in case Setenv_result w of
           Some e \<Rightarrow> (t1 @ [log_Panic e], Panicked e)
         | None \<Rightarrow>
            (let t2 = t1 @ [NewCassandraMetadataService (GetMetadataConfig cfg)]
             in case NewCassandraMetadataService_result w of
                  Inl err \<Rightarrow>
                    (t2 @ [log_Fatal err
                             ''unable to instantiate metadata service (did you run ./scripts/setup_cassandra_schema.sh?)''],
                     Exited 1)
                | Inr meta \<Rightarrow>
                    (t2 @ [NewHostHardwareInfoReader meta,
                           NewMetricReporterWithHostname sc,
                           NewDconfigClient sc serviceName,
                           uuid_New, NewUUIDResolver meta, NewBypassAuthManager,
                           NewService serviceName (uuid_New_result w) sc meta,
                           NewDummyZoneFailoverManager,
                           NewController,
                           Start Controller [HostChannels Controller],
                           ServiceLoop (GetPort sc + diagnosticPortOffset) Controller_Service],
                     Completed)))"

text \<open>Lines 108 to 131. The frontend host appends the metadata server to its
  channels before it starts.\<close>

definition StartFrontendHostService :: "world \<Rightarrow> run" where
  "StartFrontendHostService w =
     (let serviceName = FrontendServiceName;
          cfg = SetupServerConfig_result w;
          sc = GetServiceConfig cfg serviceName;
          t1 = [SetupServerConfig, Setenv ''port'' (Sprintf_d (GetPort sc))]
      in case Setenv_result w of
           Some e \<Rightarrow> (t1 @ [log_Panic e], Panicked e)
         | None \<Rightarrow>
            (let t2 = t1 @ [NewCassandraMetadataService (GetMetadataConfig cfg)]
             in case NewCassandraMetadataService_result w of
                  Inl err \<Rightarrow>
                    (t2 @ [log_Fatal err ''frontendhost: unable to instantiate metadata service''],
                     Exited 1)
                | Inr meta \<Rightarrow>
                    (t2 @ [NewHostHardwareInfoReader meta,
                           NewMetricReporterWithHostname sc,
                           NewDconfigClient sc serviceName,
                           uuid_New, NewUUIDResolver meta, NewBypassAuthManager,
                           NewService serviceName (uuid_New_result w) sc meta,
                           NewFrontendHost serviceName,
                           NewTChanMetadataExposableServer meta,
                           Start FrontendHost
                             ([HostChannels FrontendHost] @ [TChanMetadataExposableServer meta]),
                           ServiceLoop (GetPort sc + diagnosticPortOffset) (SCommon serviceName)],
                     Completed)))"

text \<open>Lines 134 to 165. A frontend host is built for the output host's own use and is
  never started.\<close>

definition StartOutputHostService :: "world \<Rightarrow> run" where
  "StartOutputHostService w =
     (let serviceName = OutputServiceName;
          cfg = SetupServerConfig_result w;
          sc = GetServiceConfig cfg serviceName;
          t1 = [SetupServerConfig, Setenv ''port'' (Sprintf_d (GetPort sc))]
      in case Setenv_result w of
           Some e \<Rightarrow> (t1 @ [log_Panic e], Panicked e)
         | None \<Rightarrow>
            (let t2 = t1 @ [NewCassandraMetadataService (GetMetadataConfig cfg)]
             in case NewCassandraMetadataService_result w of
                  Inl err \<Rightarrow>
                    (t2 @ [log_Fatal err ''frontendhost: unable to instantiate metadata service''],
                     Exited 1)
                | Inr meta \<Rightarrow>
                    (t2 @ [NewHostHardwareInfoReader meta,
                           NewMetricReporterWithHostname sc,
                           NewDconfigClient sc serviceName,
                           uuid_New, NewUUIDResolver meta, NewBypassAuthManager,
                           NewService serviceName (uuid_New_result w) sc meta,
                           NewFrontendHost FrontendServiceName,
                           NewOutputHost serviceName (GetKafkaConfig cfg),
                           Start OutputHost [HostChannels OutputHost],
                           WSStart (GetListenAddress_String sc) (GetWebsocketPort sc) OutputHost,
                           ServiceLoop (GetPort sc + diagnosticPortOffset) (SCommon serviceName)],
                     Completed)))"

text \<open>Lines 168 to 237. The identity is the configured host UUID; the flags are parsed
  after the shared service object is built; the environment read by the base-directory
  switch is the one left by the export of the port.\<close>

definition StartStoreHostService :: "world \<Rightarrow> run" where
  "StartStoreHostService w =
     (let serviceName = StoreServiceName;
          cfg = SetupServerConfig_result w;
          sc = GetServiceConfig cfg serviceName;
          t1 = [SetupServerConfig, Setenv ''port'' (Sprintf_d (GetPort sc))]
      in case Setenv_result w of
           Some e \<Rightarrow> (t1 @ [log_Panic e], Panicked e)
         | None \<Rightarrow>
            (let env = (environ w)(''port'' \<mapsto> Sprintf_d (GetPort sc));
                 t2 = t1 @ [NewCassandraMetadataService (GetMetadataConfig cfg)]
             in case NewCassandraMetadataService_result w of
                  Inl err \<Rightarrow>
                    (t2 @ [log_Fatal err ''storehost: unable to instantiate metadata client''],
                     Exited 1)
                | Inr meta \<Rightarrow>
                    (let t3 = t2 @ [NewHostHardwareInfoReader meta,
                                    NewMetricReporterWithHostname sc,
                                    NewDconfigClient sc serviceName,
                                    NewUUIDResolver meta, NewBypassAuthManager,
                                    NewService serviceName (GetHostUUID (GetStorageConfig cfg)) sc meta,
                                    flag_Parse]
                     in case flag_Parse_result w of
                          Inl status \<Rightarrow> (t3, Exited status)
                        | Inr args \<Rightarrow>
                            (t3 @ [NewStoreHost serviceName
                                     (store_options (unicode_ToLower w) cfg env args),
                                   Start StoreHost [HostChannels StoreHost],
                                   WSStart (GetListenAddress_String sc) (GetWebsocketPort sc) StoreHost,
                                   ServiceLoop (GetPort sc + diagnosticPortOffset) (SCommon serviceName)],
                             Completed))))"

text \<open>Lines 240 to 266.\<close>

definition StartReplicatorService :: "world \<Rightarrow> run" where
  "StartReplicatorService w =
     (let serviceName = ReplicatorServiceName;
          cfg = SetupServerConfig_result w;
          sc = GetServiceConfig cfg serviceName;
          t1 = [SetupServerConfig, Setenv ''port'' (Sprintf_d (GetPort sc))]
      in case Setenv_result w of
           Some e \<Rightarrow> (t1 @ [log_Panic e], Panicked e)
         | None \<Rightarrow>
            (let t2 = t1 @ [NewCassandraMetadataService (GetMetadataConfig cfg)]
             in case NewCassandraMetadataService_result w of
                  Inl err \<Rightarrow>
                    (t2 @ [log_Fatal err ''frontendhost: unable to instantiate metadata service''],
                     Exited 1)
                | Inr meta \<Rightarrow>
                    (t2 @ [NewHostHardwareInfoReader meta,
                           NewMetricReporterWithHostname sc,
                           NewDconfigClient sc serviceName,
                           uuid_New, NewUUIDResolver meta, NewBypassAuthManager,
                           NewService serviceName (uuid_New_result w) sc meta,
                           GetDefaultLogger,
                           NewReplicatorClientFactory,
                           NewReplicator serviceName,
                           Start Replicator [HostChannels Replicator],
                           WSStart (GetListenAddress_String sc) (GetWebsocketPort sc) Replicator,
                           ServiceLoop (GetPort sc + diagnosticPortOffset) (SCommon serviceName)],
                     Completed)))"

text \<open>The caller chooses the entry point; \<open>StartService\<close> names that choice by the
  service the entry point starts.\<close>

fun StartService :: "service_name \<Rightarrow> world \<Rightarrow> run" where
  "StartService InputServiceName = StartInputHostService"
| "StartService ControllerServiceName = StartControllerService"
| "StartService FrontendServiceName = StartFrontendHostService"
| "StartService OutputServiceName = StartOutputHostService"
| "StartService StoreServiceName = StartStoreHostService"
| "StartService ReplicatorServiceName = StartReplicatorService"

subsection \<open>Reading a trace\<close>

text \<open>The three calls that open a network listener: the start of the role's host, the
  websocket server and the diagnostic HTTP loop.\<close>

fun is_listener :: "event \<Rightarrow> bool" where
  "is_listener (Start h tc) = True"
| "is_listener (WSStart a p h) = True"
| "is_listener (ServiceLoop p x) = True"
| "is_listener e = False"

fun is_NewService :: "event \<Rightarrow> bool" where
  "is_NewService (NewService n u sc m) = True"
| "is_NewService e = False"

fun is_ServiceLoop :: "event \<Rightarrow> bool" where
  "is_ServiceLoop (ServiceLoop p x) = True"
| "is_ServiceLoop e = False"

text \<open>The identity of the process: the UUID handed to \<^verbatim>\<open>common.NewService\<close>, if the run
  gets that far.\<close>

fun service_identity :: "event list \<Rightarrow> string option" where
  "service_identity [] = None"
| "service_identity (NewService n u sc m # es) = Some u"
| "service_identity (e # es) = service_identity es"

text \<open>No listener call comes before the first call of \<^verbatim>\<open>common.NewService\<close>.\<close>

fun bundle_before_listeners :: "event list \<Rightarrow> bool" where
  "bundle_before_listeners [] = True"
| "bundle_before_listeners (e # es) =
     (if is_NewService e then True else \<not> is_listener e \<and> bundle_before_listeners es)"

text \<open>The host object each entry point starts, and what it hands to the diagnostic
  loop.\<close>

fun host_of :: "service_name \<Rightarrow> host" where
  "host_of InputServiceName = InputHost"
| "host_of ControllerServiceName = Controller"
| "host_of FrontendServiceName = FrontendHost"
| "host_of OutputServiceName = OutputHost"
| "host_of StoreServiceName = StoreHost"
| "host_of ReplicatorServiceName = Replicator"

fun transport_channels :: "service_name \<Rightarrow> meta \<Rightarrow> tchan list" where
  "transport_channels FrontendServiceName m =
     [HostChannels FrontendHost, TChanMetadataExposableServer m]"
| "transport_channels n m = [HostChannels (host_of n)]"

fun introspected_of :: "service_name \<Rightarrow> introspected" where
  "introspected_of InputServiceName = Host InputHost"
| "introspected_of ControllerServiceName = Controller_Service"
| "introspected_of n = SCommon n"

text \<open>The options handed to \<^verbatim>\<open>storehost.NewStoreHost\<close>, if the run gets that far.\<close>

fun storehost_options :: "event list \<Rightarrow> Options option" where
  "storehost_options [] = None"
| "storehost_options (NewStoreHost n opts # es) = Some opts"
| "storehost_options (e # es) = storehost_options es"

subsection \<open>The specification's resolution rules\<close>

text \<open>The first non-empty value of a list of candidates, empty when there is none.\<close>

definition first_nonempty :: "string list \<Rightarrow> string" where
  "first_nonempty xs = (case find (\<lambda>s. s \<noteq> []) xs of None \<Rightarrow> [] | Some x \<Rightarrow> x)"

text \<open>The backend tokens in priority order, each with its kind; the kind of the first
  token that occurs in the name.\<close>

definition backend_tokens :: "(string \<times> Store) list" where
  "backend_tokens =
     [(''rockstor'', Rockstor), (''chunky'', Chunky),
      (''manyrocks'', ManyRocks), (''rockcfstor'', RockCFstor)]"

definition first_token_kind :: "string \<Rightarrow> Store option" where
  "first_token_kind s = map_option snd (find (\<lambda>tk. sublist (fst tk) s) backend_tokens)"

text \<open>The value of a string of decimal digits.\<close>

definition undecimal :: "string \<Rightarrow> nat" where
  "undecimal s = foldl (\<lambda>n c. 10 * n + (of_char c - 48)) 0 s"

subsection \<open>Example worlds\<close>

definition example_cfg :: AppConfig where
  "example_cfg =
     \<lparr>GetServiceConfig =
        (\<lambda>n. \<lparr>GetPort = (case n of InputServiceName \<Rightarrow> 4240 | ControllerServiceName \<Rightarrow> 5425
                          | FrontendServiceName \<Rightarrow> 4922 | OutputServiceName \<Rightarrow> 4254
                          | StoreServiceName \<Rightarrow> 4253 | ReplicatorServiceName \<Rightarrow> 6280),
              GetWebsocketPort = 6189,
              GetListenAddress_String = ''127.0.0.1''\<rparr>),
      GetMetadataConfig = ''cassandra'',
      GetStorageConfig =
        \<lparr>GetHostUUID = ''11111111-1111-1111-1111-111111111111'',
         GetStore = ''ManyRocks'',
         GetBaseDir = ''/data/c''\<rparr>,
      GetKafkaConfig = ''kafka''\<rparr>"

definition example_world :: world where
  "example_world =
     \<lparr>SetupServerConfig_result = example_cfg,
      environ = [''CHERAMI_STORE'' \<mapsto> ''/data/b''],
      Setenv_result = None,
      NewCassandraMetadataService_result = Inr (MetadataClient 0),
      uuid_New_result = ''6ba7b810-9dad-41d1-80b4-00c04fd430c8'',
      flag_Parse_result = Inr \<lparr>store_flag = None, dir_flag = Some ''/data/a''\<rparr>,
      unicode_ToLower = id\<rparr>"

text \<open>The same start with the metadata store unreachable and with an environment that
  cannot be written; then two later starts of the same configuration, each with its own
  string from the generator.\<close>

definition world_metadata_down :: world where
  "world_metadata_down =
     example_world\<lparr>NewCassandraMetadataService_result := Inl ''no hosts available''\<rparr>"

definition world_setenv_fails :: world where
  "world_setenv_fails = example_world\<lparr>Setenv_result := Some ''invalid argument''\<rparr>"

definition world_restarted :: world where
  "world_restarted =
     example_world\<lparr>environ := Map.empty,
                   NewCassandraMetadataService_result := Inr (MetadataClient 1),
                   uuid_New_result := ''16fd2706-8baf-433b-82eb-8c7fada847da'',
                   flag_Parse_result := Inr \<lparr>store_flag = Some ''Chunky'', dir_flag = None\<rparr>\<rparr>"

definition world_restarted_fresh :: world where
  "world_restarted_fresh =
     world_restarted\<lparr>uuid_New_result := ''f47ac10b-58cc-4372-a567-0e02b2c3d479''\<rparr>"

section \<open>Unfolding rules and facts about the library functions\<close>

lemmas Start_defs =
  StartInputHostService_def StartControllerService_def StartFrontendHostService_def
  StartOutputHostService_def StartStoreHostService_def StartReplicatorService_def

lemmas string_eval =
  Sprintf_d_def decimal.simps digit_char_def ToLower_def isASCII_def lowerASCII_def
  char_of_def bit_Suc_0_iff

lemma Contains_iff_sublist: "Contains s substr \<longleftrightarrow> sublist substr s"
  by (induction s) (auto simp: sublist_Cons_right)

lemma of_char_digit_char: "d < 10 \<Longrightarrow> (of_char (digit_char d) :: nat) = 48 + d"
  by (simp add: digit_char_def)

lemma undecimal_snoc: "undecimal (s @ [c]) = 10 * undecimal s + (of_char c - 48)"
  by (simp add: undecimal_def)

lemma undecimal_decimal: "undecimal (decimal n) = n"
proof (induction n rule: decimal.induct)
  case (1 n)
  show ?case
  proof (cases "n < 10")
    case True
    then show ?thesis
      by (subst decimal.simps) (simp add: undecimal_def of_char_digit_char)
  next
    case False
    with 1 have "undecimal (decimal (n div 10)) = n div 10" by simp
    with False show ?thesis
      by (subst decimal.simps) (simp add: undecimal_snoc of_char_digit_char)
  qed
qed

lemma sint_port_offset:
  fixes p :: goint
  assumes "0 \<le> sint p" and "sint p \<le> 65535"
  shows "sint (p + diagnosticPortOffset) = sint p + 10000"
proof -
  have "sint (p + 10000) = signed_take_bit 63 (sint p + sint (10000 :: goint))"
    by (simp add: sint_word_ariths)
  also have "sint (10000 :: goint) = 10000" by simp
  also have "signed_take_bit 63 (sint p + 10000) = sint p + 10000"
    using assms by (intro signed_take_bit_int_eq_self) simp_all
  finally show ?thesis by (simp add: diagnosticPortOffset_def)
qed

lemma first_nonempty_three:
  "first_nonempty [a, b, c] = (if a \<noteq> [] then a else if b \<noteq> [] then b else c)"
  by (simp add: first_nonempty_def)

section \<open>Facts about traces\<close>

lemma bundle_before_listeners_nth:
  "bundle_before_listeners t \<Longrightarrow> i < length t \<Longrightarrow> is_listener (t ! i)
     \<Longrightarrow> \<exists>j<i. is_NewService (t ! j)"
proof (induction t arbitrary: i)
  case Nil
  then show ?case by simp
next
  case (Cons e es)
  show ?case
  proof (cases "is_NewService e")
    case True
    then have "\<not> is_listener e" by (cases e) simp_all
    with Cons.prems have "i \<noteq> 0" by (cases i) auto
    with True show ?thesis by (intro exI [of _ 0]) simp
  next
    case False
    with Cons.prems have rest: "bundle_before_listeners es" and "\<not> is_listener e" by auto
    with Cons.prems obtain k where k: "i = Suc k" by (cases i) auto
    with Cons.prems have "k < length es" and "is_listener (es ! k)" by auto
    from Cons.IH [OF rest this] obtain j where "j < k" and "is_NewService (es ! j)" by blast
    with k show ?thesis by (intro exI [of _ "Suc j"]) simp
  qed
qed

lemma StartService_bundle_before_listeners: "bundle_before_listeners (fst (StartService r w))"
  by (cases r) (simp_all add: Start_defs Let_def split: option.splits sum.splits)

lemma NewService_needs_metadata:
  "NewService n u sc m \<in> set (fst (StartService r w))
     \<Longrightarrow> NewCassandraMetadataService_result w = Inr m"
  by (cases r) (auto simp: Start_defs Let_def split: option.splits sum.splits)

lemma store_switch_first_token:
  "Store (store_switch ul raw \<lparr>Store = None, BaseDir = d\<rparr>) = first_token_kind (ToLower ul raw)"
  by (simp add: store_switch_def first_token_kind_def backend_tokens_def Let_def
        Contains_iff_sublist)

lemma store_switch_BaseDir: "BaseDir (store_switch ul raw opts) = BaseDir opts"
  by (simp add: store_switch_def Let_def)

lemma baseDir_switch_Store: "Store (baseDir_switch b env cfg opts) = Store opts"
  by (simp add: baseDir_switch_def)

lemma store_options_BaseDir:
  "BaseDir (store_options ul cfg env args) =
     first_nonempty [flag_StringVar [] (dir_flag args), Getenv env ''CHERAMI_STORE'',
                     GetBaseDir (GetStorageConfig cfg)]"
  by (simp add: store_options_def baseDir_switch_def store_switch_BaseDir first_nonempty_def
        Let_def)

lemma store_options_Store:
  "Store (store_options ul cfg env args) =
     first_token_kind (ToLower ul (flag_StringVar (GetStore (GetStorageConfig cfg)) (store_flag args)))"
  by (simp add: store_options_def baseDir_switch_Store store_switch_first_token Let_def)

lemma StartStoreHostService_options:
  assumes "Setenv_result w = None"
    and "NewCassandraMetadataService_result w = Inr m"
    and "flag_Parse_result w = Inr args"
  shows "storehost_options (fst (StartStoreHostService w)) =
           Some (store_options (unicode_ToLower w) (SetupServerConfig_result w)
                   ((environ w)(''port'' \<mapsto>
                      Sprintf_d (GetPort (GetServiceConfig (SetupServerConfig_result w) StoreServiceName))))
                   args)"
  using assms by (simp add: StartStoreHostService_def Let_def)

section \<open>The storage role's options\<close>

text \<open>
  C1. For the storage role, the base directory handed to the store host is the first
  non-empty value among the \<^verbatim>\<open>--dir\<close> argument, the environment variable
  \<^verbatim>\<open>CHERAMI_STORE\<close> and the configuration value \<^verbatim>\<open>StorageConfig.BaseDir\<close>, in that
  order; when all three are empty it is empty, and the store host picks its default.
\<close>

theorem baseDir_precedence:
  assumes "Setenv_result w = None"
    and "NewCassandraMetadataService_result w = Inr m"
    and "flag_Parse_result w = Inr args"
  shows "map_option BaseDir (storehost_options (fst (StartStoreHostService w))) =
           Some (first_nonempty
                   [flag_StringVar [] (dir_flag args),
                    Getenv (environ w) ''CHERAMI_STORE'',
                    GetBaseDir (GetStorageConfig (SetupServerConfig_result w))])"
  by (simp add: StartStoreHostService_options [OF assms] store_options_BaseDir Getenv_def)

theorem baseDir_precedence_witness:
  "Setenv_result example_world = None
   \<and> NewCassandraMetadataService_result example_world = Inr (MetadataClient 0)
   \<and> flag_Parse_result example_world = Inr \<lparr>store_flag = None, dir_flag = Some ''/data/a''\<rparr>
   \<and> map_option BaseDir (storehost_options (fst (StartStoreHostService example_world))) =
       Some ''/data/a''"
  using baseDir_precedence [of example_world "MetadataClient 0"
      "\<lparr>store_flag = None, dir_flag = Some ''/data/a''\<rparr>"]
  by (simp add: example_world_def example_cfg_def first_nonempty_def flag_StringVar_def Getenv_def)

text \<open>
  C2. The backend switch lower-cases the raw name and selects the kind of the first of
  the tokens \<^verbatim>\<open>rockstor\<close>, \<^verbatim>\<open>chunky\<close>, \<^verbatim>\<open>manyrocks\<close>, \<^verbatim>\<open>rockcfstor\<close> (in that order) that
  occurs in it; when none occurs the kind stays unset. The base directory of the
  options is not touched.
\<close>

theorem backend_first_token:
  "Store (store_switch ul raw \<lparr>Store = None, BaseDir = d\<rparr>) = first_token_kind (ToLower ul raw)
   \<and> BaseDir (store_switch ul raw \<lparr>Store = None, BaseDir = d\<rparr>) = d"
  by (simp add: store_switch_first_token store_switch_BaseDir)

theorem backend_first_token_witness:
  "Store (store_switch id ''MyRockstorDB'' \<lparr>Store = None, BaseDir = ''/data/a''\<rparr>) = Some Rockstor"
proof -
  have "first_token_kind (ToLower id ''MyRockstorDB'') = Some Rockstor"
    by (simp add: first_token_kind_def backend_tokens_def string_eval flip: Contains_iff_sublist)
  with backend_first_token [of id "''MyRockstorDB''" "''/data/a''"] show ?thesis by simp
qed

lemma backend_examples:
  "Store (store_switch ul ''foo'' \<lparr>Store = None, BaseDir = d\<rparr>) = None"
  "Store (store_switch ul ''chunky-on-manyrocks'' \<lparr>Store = None, BaseDir = d\<rparr>) = Some Chunky"
  by (simp_all add: store_switch_def string_eval)

text \<open>
  C10. For the storage role, the name given to the backend switch is the value of the
  \<^verbatim>\<open>--store\<close> flag when the flag is on the command line, and the configuration value
  \<^verbatim>\<open>StorageConfig.Store\<close> when it is not.
\<close>

theorem store_flag_precedence:
  assumes "Setenv_result w = None"
    and "NewCassandraMetadataService_result w = Inr m"
    and "flag_Parse_result w = Inr args"
  shows "map_option Store (storehost_options (fst (StartStoreHostService w))) =
           Some (first_token_kind (ToLower (unicode_ToLower w)
                   (case store_flag args of
                      None \<Rightarrow> GetStore (GetStorageConfig (SetupServerConfig_result w))
                    | Some given \<Rightarrow> given)))"
  by (simp add: StartStoreHostService_options [OF assms] store_options_Store flag_StringVar_def)

theorem store_flag_precedence_witness:
  "Setenv_result world_restarted = None
   \<and> NewCassandraMetadataService_result world_restarted = Inr (MetadataClient 1)
   \<and> flag_Parse_result world_restarted = Inr \<lparr>store_flag = Some ''Chunky'', dir_flag = None\<rparr>
   \<and> GetStore (GetStorageConfig (SetupServerConfig_result world_restarted)) = ''ManyRocks''
   \<and> map_option Store (storehost_options (fst (StartStoreHostService world_restarted))) =
        Some (Some Chunky)
   \<and> flag_Parse_result example_world = Inr \<lparr>store_flag = None, dir_flag = Some ''/data/a''\<rparr>
   \<and> map_option Store (storehost_options (fst (StartStoreHostService example_world))) =
        Some (Some ManyRocks)"
proof -
  have k: "first_token_kind (ToLower id ''Chunky'') = Some Chunky"
    "first_token_kind (ToLower id ''ManyRocks'') = Some ManyRocks"
    by (simp_all add: first_token_kind_def backend_tokens_def string_eval
          flip: Contains_iff_sublist)
  from store_flag_precedence [of world_restarted "MetadataClient 1"
      "\<lparr>store_flag = Some ''Chunky'', dir_flag = None\<rparr>"]
    store_flag_precedence [of example_world "MetadataClient 0"
      "\<lparr>store_flag = None, dir_flag = Some ''/data/a''\<rparr>"] k
  show ?thesis
    by (simp add: world_restarted_def example_world_def example_cfg_def)
qed

section \<open>The bootstrap sequence\<close>

text \<open>
  C3. For every role, when the construction of the metadata client returns an error,
  the run ends with exit status 1 right after the fatal log entry carrying that error,
  and no listener call (host start, websocket server, diagnostic loop) has been made.
\<close>

theorem metadata_failure_fatal:
  assumes "Setenv_result w = None"
    and "NewCassandraMetadataService_result w = Inl err"
  shows "snd (StartService r w) = Exited 1
         \<and> filter is_listener (fst (StartService r w)) = []
         \<and> (\<exists>msg. last (fst (StartService r w)) = log_Fatal err msg)"
  using assms by (cases r) (simp_all add: Start_defs Let_def)

theorem metadata_failure_fatal_witness:
  "Setenv_result world_metadata_down = None
   \<and> NewCassandraMetadataService_result world_metadata_down = Inl ''no hosts available''
   \<and> snd (StartService InputServiceName world_metadata_down) = Exited 1
   \<and> filter is_listener (fst (StartService InputServiceName world_metadata_down)) = []"
  using metadata_failure_fatal [of world_metadata_down "''no hosts available''" InputServiceName]
  by (simp add: world_metadata_down_def example_world_def)

text \<open>
  C4. For every role and every run, a listener call is preceded by the call of
  \<^verbatim>\<open>common.NewService\<close>, and that call holds the metadata client whose construction
  succeeded. When the run gets through, the listener calls are, in this order: the
  start of the role's host, then for the input, output, store and replicator roles the
  websocket server on the role's listen address and websocket port, then the
  diagnostic loop. The controller and the frontend start no websocket server.
\<close>

theorem start_order:
  "(\<forall>i<length (fst (StartService r w)). is_listener (fst (StartService r w) ! i) \<longrightarrow>
      (\<exists>j<i. \<exists>n u sc m'. fst (StartService r w) ! j = NewService n u sc m'
                 \<and> NewCassandraMetadataService_result w = Inr m'))
   \<and> (Setenv_result w = None \<and> NewCassandraMetadataService_result w = Inr m
        \<and> (r = StoreServiceName \<longrightarrow> flag_Parse_result w = Inr args) \<longrightarrow>
       filter is_listener (fst (StartService r w)) =
         (if r \<in> {ControllerServiceName, FrontendServiceName}
          then [Start (host_of r) (transport_channels r m),
                ServiceLoop (GetPort (GetServiceConfig (SetupServerConfig_result w) r) + diagnosticPortOffset)
                  (introspected_of r)]
          else [Start (host_of r) (transport_channels r m),
                WSStart (GetListenAddress_String (GetServiceConfig (SetupServerConfig_result w) r))
                  (GetWebsocketPort (GetServiceConfig (SetupServerConfig_result w) r)) (host_of r),
                ServiceLoop (GetPort (GetServiceConfig (SetupServerConfig_result w) r) + diagnosticPortOffset)
                  (introspected_of r)]))"
proof (intro conjI allI impI)
  fix i
  let ?t = "fst (StartService r w)"
  assume i: "i < length ?t" and l: "is_listener (?t ! i)"
  from bundle_before_listeners_nth [OF StartService_bundle_before_listeners i l]
  obtain j where j: "j < i" and s: "is_NewService (?t ! j)" by blast
  from s obtain n u sc m' where e: "?t ! j = NewService n u sc m'"
    by (cases "?t ! j") simp_all
  from j i have "?t ! j \<in> set ?t" by simp
  with e have "NewCassandraMetadataService_result w = Inr m'"
    by (simp add: NewService_needs_metadata)
  with j e show "\<exists>j<i. \<exists>n u sc m'. ?t ! j = NewService n u sc m'
      \<and> NewCassandraMetadataService_result w = Inr m'" by blast
next
  assume "Setenv_result w = None \<and> NewCassandraMetadataService_result w = Inr m
        \<and> (r = StoreServiceName \<longrightarrow> flag_Parse_result w = Inr args)"
  then show "filter is_listener (fst (StartService r w)) =
         (if r \<in> {ControllerServiceName, FrontendServiceName}
          then [Start (host_of r) (transport_channels r m),
                ServiceLoop (GetPort (GetServiceConfig (SetupServerConfig_result w) r) + diagnosticPortOffset)
                  (introspected_of r)]
          else [Start (host_of r) (transport_channels r m),
                WSStart (GetListenAddress_String (GetServiceConfig (SetupServerConfig_result w) r))
                  (GetWebsocketPort (GetServiceConfig (SetupServerConfig_result w) r)) (host_of r),
                ServiceLoop (GetPort (GetServiceConfig (SetupServerConfig_result w) r) + diagnosticPortOffset)
                  (introspected_of r)])"
    by (cases r) (simp_all add: Start_defs Let_def)
qed

theorem start_order_witness:
  "11 < length (fst (StartService InputServiceName example_world))
   \<and> is_listener (fst (StartService InputServiceName example_world) ! 11)
   \<and> (\<exists>j<11. \<exists>n u sc m'. fst (StartService InputServiceName example_world) ! j = NewService n u sc m'
          \<and> NewCassandraMetadataService_result example_world = Inr m')
   \<and> filter is_listener (fst (StartService InputServiceName example_world)) =
        [Start InputHost [HostChannels InputHost], WSStart ''127.0.0.1'' 6189 InputHost,
         ServiceLoop 14240 (Host InputHost)]"
proof -
  note T = start_order [of InputServiceName example_world "MetadataClient 0"
      "\<lparr>store_flag = None, dir_flag = None\<rparr>"]
  have len: "11 < length (fst (StartService InputServiceName example_world))"
    by (simp add: StartInputHostService_def example_world_def Let_def)
  have lis: "is_listener (fst (StartService InputServiceName example_world) ! 11)"
    by (simp add: StartInputHostService_def example_world_def Let_def)
  from T len lis
  have before: "\<exists>j<11. \<exists>n u sc m'.
      fst (StartService InputServiceName example_world) ! j = NewService n u sc m'
      \<and> NewCassandraMetadataService_result example_world = Inr m'"
    by blast
  have ok: "Setenv_result example_world = None
      \<and> NewCassandraMetadataService_result example_world = Inr (MetadataClient 0)
      \<and> (InputServiceName = StoreServiceName \<longrightarrow>
           flag_Parse_result example_world = Inr \<lparr>store_flag = None, dir_flag = None\<rparr>)"
    by (simp add: example_world_def)
  from T ok
  have "filter is_listener (fst (StartService InputServiceName example_world)) =
     [Start (host_of InputServiceName) (transport_channels InputServiceName (MetadataClient 0)),
      WSStart (GetListenAddress_String (GetServiceConfig (SetupServerConfig_result example_world) InputServiceName))
        (GetWebsocketPort (GetServiceConfig (SetupServerConfig_result example_world) InputServiceName))
        (host_of InputServiceName),
      ServiceLoop (GetPort (GetServiceConfig (SetupServerConfig_result example_world) InputServiceName)
                     + diagnosticPortOffset) (introspected_of InputServiceName)]"
    by simp
  then have "filter is_listener (fst (StartService InputServiceName example_world)) =
        [Start InputHost [HostChannels InputHost], WSStart ''127.0.0.1'' 6189 InputHost,
         ServiceLoop 14240 (Host InputHost)]"
    by (simp add: example_world_def example_cfg_def diagnosticPortOffset_def)
  with len lis before show ?thesis by blast
qed

text \<open>
  C5. For every role, a run that gets through calls the diagnostic loop once, on the
  role's primary port plus \<open>diagnosticPortOffset\<close>; for a primary port between 0 and
  65535 that is the port plus 10000, whatever the role and the configuration.
\<close>

theorem diagnostic_port:
  assumes "Setenv_result w = None"
    and "NewCassandraMetadataService_result w = Inr m"
    and "r = StoreServiceName \<longrightarrow> flag_Parse_result w = Inr args"
    and "0 \<le> sint (GetPort (GetServiceConfig (SetupServerConfig_result w) r))"
    and "sint (GetPort (GetServiceConfig (SetupServerConfig_result w) r)) \<le> 65535"
  shows "\<exists>p. filter is_ServiceLoop (fst (StartService r w)) = [ServiceLoop p (introspected_of r)]
           \<and> p = GetPort (GetServiceConfig (SetupServerConfig_result w) r) + diagnosticPortOffset
           \<and> sint p = sint (GetPort (GetServiceConfig (SetupServerConfig_result w) r)) + 10000"
proof -
  let ?p = "GetPort (GetServiceConfig (SetupServerConfig_result w) r) + diagnosticPortOffset"
  from assms(1-3)
  have "filter is_ServiceLoop (fst (StartService r w)) = [ServiceLoop ?p (introspected_of r)]"
    by (cases r) (simp_all add: Start_defs Let_def)
  moreover from assms(4,5)
  have "sint ?p = sint (GetPort (GetServiceConfig (SetupServerConfig_result w) r)) + 10000"
    by (rule sint_port_offset)
  ultimately show ?thesis by blast
qed

theorem diagnostic_port_witness:
  "Setenv_result example_world = None
   \<and> NewCassandraMetadataService_result example_world = Inr (MetadataClient 0)
   \<and> ControllerServiceName \<noteq> StoreServiceName
   \<and> 0 \<le> sint (GetPort (GetServiceConfig (SetupServerConfig_result example_world) ControllerServiceName))
   \<and> sint (GetPort (GetServiceConfig (SetupServerConfig_result example_world) ControllerServiceName)) \<le> 65535
   \<and> (\<exists>p. filter is_ServiceLoop (fst (StartService ControllerServiceName example_world)) =
             [ServiceLoop p Controller_Service] \<and> sint p = 15425)"
  using diagnostic_port [of example_world "MetadataClient 0" ControllerServiceName
      "\<lparr>store_flag = None, dir_flag = None\<rparr>"]
  by (simp add: example_world_def example_cfg_def)

text \<open>
  C9. For every role, the first call after the configuration has been read exports the
  role's primary port, printed in decimal, into the environment variable \<^verbatim>\<open>port\<close>.
  When that export fails the run panics at once: the metadata client is not
  constructed and no listener call is made.
\<close>

theorem port_exported_first:
  "(\<exists>rest. fst (StartService r w) =
       SetupServerConfig
       # Setenv ''port'' (Sprintf_d (GetPort (GetServiceConfig (SetupServerConfig_result w) r)))
       # rest)
   \<and> (0 \<le> sint (GetPort (GetServiceConfig (SetupServerConfig_result w) r)) \<longrightarrow>
        int (undecimal (Sprintf_d (GetPort (GetServiceConfig (SetupServerConfig_result w) r)))) =
          sint (GetPort (GetServiceConfig (SetupServerConfig_result w) r)))
   \<and> (Setenv_result w = Some e \<longrightarrow>
        StartService r w =
          ([SetupServerConfig,
            Setenv ''port'' (Sprintf_d (GetPort (GetServiceConfig (SetupServerConfig_result w) r))),
            log_Panic e],
           Panicked e))"
proof (intro conjI impI)
  show "\<exists>rest. fst (StartService r w) =
       SetupServerConfig
       # Setenv ''port'' (Sprintf_d (GetPort (GetServiceConfig (SetupServerConfig_result w) r)))
       # rest"
    by (cases r) (simp_all add: Start_defs Let_def split: option.splits sum.splits)
next
  assume "0 \<le> sint (GetPort (GetServiceConfig (SetupServerConfig_result w) r))"
  then show "int (undecimal (Sprintf_d (GetPort (GetServiceConfig (SetupServerConfig_result w) r)))) =
          sint (GetPort (GetServiceConfig (SetupServerConfig_result w) r))"
    by (simp add: Sprintf_d_def undecimal_decimal)
next
  assume "Setenv_result w = Some e"
  then show "StartService r w =
          ([SetupServerConfig,
            Setenv ''port'' (Sprintf_d (GetPort (GetServiceConfig (SetupServerConfig_result w) r))),
            log_Panic e],
           Panicked e)"
    by (cases r) (simp_all add: Start_defs Let_def)
qed

theorem port_exported_first_witness:
  "0 \<le> sint (GetPort (GetServiceConfig (SetupServerConfig_result world_setenv_fails) StoreServiceName))
   \<and> Setenv_result world_setenv_fails = Some ''invalid argument''
   \<and> undecimal ''4253'' = 4253
   \<and> StartService StoreServiceName world_setenv_fails =
        ([SetupServerConfig, Setenv ''port'' ''4253'', log_Panic ''invalid argument''],
         Panicked ''invalid argument'')"
proof -
  have v: "Sprintf_d (GetPort (GetServiceConfig (SetupServerConfig_result world_setenv_fails)
             StoreServiceName)) = ''4253''"
    by (simp add: world_setenv_fails_def example_world_def example_cfg_def string_eval)
  have p: "GetPort (GetServiceConfig (SetupServerConfig_result world_setenv_fails)
             StoreServiceName) = 4253"
    by (simp add: world_setenv_fails_def example_world_def example_cfg_def)
  have s: "Setenv_result world_setenv_fails = Some ''invalid argument''"
    by (simp add: world_setenv_fails_def)
  from port_exported_first [of StoreServiceName world_setenv_fails "''invalid argument''"] v p s
  show ?thesis by simp
qed

text \<open>
  C8. When the construction of the metadata client fails, the fatal log entry should
  name the role that is starting. At the start of the output role with the metadata
  store unreachable, the entry carries the error and the text of the frontend role;
  the replicator role writes the same entry.
\<close>

theorem output_fatal_message_names_frontend:
  "StartOutputHostService world_metadata_down =
     ([SetupServerConfig, Setenv ''port'' ''4254'', NewCassandraMetadataService ''cassandra'',
       log_Fatal ''no hosts available'' ''frontendhost: unable to instantiate metadata service''],
      Exited 1)
   \<and> last (fst (StartReplicatorService world_metadata_down)) =
       last (fst (StartOutputHostService world_metadata_down))
   \<and> last (fst (StartFrontendHostService world_metadata_down)) =
       last (fst (StartOutputHostService world_metadata_down))"
proof -
  have "Sprintf_d 4254 = ''4254''"
    by (simp add: string_eval)
  then show ?thesis
    by (simp add: StartOutputHostService_def StartReplicatorService_def
          StartFrontendHostService_def world_metadata_down_def example_world_def
          example_cfg_def Let_def)
qed

section \<open>The identity of the process\<close>

text \<open>
  C6. For the storage role, the UUID handed to \<^verbatim>\<open>common.NewService\<close> is the configured
  \<^verbatim>\<open>StorageConfig.HostUUID\<close>, unchanged, and \<^verbatim>\<open>uuid.New()\<close> is not called; two runs on the
  same configuration have the same identity, whatever else differs between them.
\<close>

theorem store_identity_stable:
  assumes "SetupServerConfig_result w' = SetupServerConfig_result w"
    and "Setenv_result w = None" and "NewCassandraMetadataService_result w = Inr m"
    and "Setenv_result w' = None" and "NewCassandraMetadataService_result w' = Inr m'"
  shows "service_identity (fst (StartStoreHostService w)) =
           Some (GetHostUUID (GetStorageConfig (SetupServerConfig_result w)))
         \<and> service_identity (fst (StartStoreHostService w')) =
             service_identity (fst (StartStoreHostService w))
         \<and> uuid_New \<notin> set (fst (StartStoreHostService w))"
  using assms by (simp add: StartStoreHostService_def Let_def split: sum.splits)

theorem store_identity_stable_witness:
  "SetupServerConfig_result world_restarted_fresh = SetupServerConfig_result example_world
   \<and> Setenv_result example_world = None
   \<and> NewCassandraMetadataService_result example_world = Inr (MetadataClient 0)
   \<and> Setenv_result world_restarted_fresh = None
   \<and> NewCassandraMetadataService_result world_restarted_fresh = Inr (MetadataClient 1)
   \<and> uuid_New_result world_restarted_fresh \<noteq> uuid_New_result example_world
   \<and> service_identity (fst (StartStoreHostService example_world)) =
        Some ''11111111-1111-1111-1111-111111111111''
   \<and> service_identity (fst (StartStoreHostService world_restarted_fresh)) =
        service_identity (fst (StartStoreHostService example_world))"
  using store_identity_stable [of world_restarted_fresh example_world
      "MetadataClient 0" "MetadataClient 1"]
  by (simp add: world_restarted_fresh_def world_restarted_def example_world_def example_cfg_def)



end
